theory Spec2Isabelle
  imports Main
begin

section \<open>The Braintree client configuration (braintree/configuration.py)\<close>

text \<open>
  The module keeps the account data in attributes of the class \<^verbatim>\<open>Configuration\<close>
  (process-wide state) and hands out instances of the same class (snapshots) that copy
  them. The embedding threads one record of the process-wide state through every
  operation that reads or writes it, and returns every Python exception as a value.
\<close>

subsection \<open>Values and errors\<close>

text \<open>
  The Python exceptions that the code of this module can raise: reading a class attribute
  that was never assigned, \<^verbatim>\<open>os.environ[...]\<close> on a missing key, the explicit
  \<^verbatim>\<open>raise ValueError("invalid http strategy")\<close>, and \<^verbatim>\<open>str + None\<close>.
\<close>

datatype error =
    AttributeError string
  | KeyError string
  | ValueError string
  | TypeError

text \<open>
  A credential is whatever the caller passed to \<^verbatim>\<open>configure\<close>; the code itself stores
  strings and \<^verbatim>\<open>None\<close> there.
\<close>

datatype pyval = PyNone | PyStr string

text \<open>
  The environment descriptor (class \<^verbatim>\<open>Environment\<close>, defined elsewhere in the
  package): this module reads its \<^verbatim>\<open>protocol\<close> and \<^verbatim>\<open>server_and_port\<close> only.
\<close>

record Environment =
  protocol :: string
  server_and_port :: string

text \<open>
  The three transport classes live in \<^verbatim>\<open>braintree.util.http_strategy\<close>. This module
  only constructs them, always as \<^verbatim>\<open>Cls(self, self.environment)\<close>; a constructor of
  the datatype records which class was instantiated and the environment it was given.
\<close>

datatype http_strategy =
    HttplibStrategy Environment
  | PycurlStrategy Environment
  | RequestsStrategy Environment

text \<open>An instance of \<^verbatim>\<open>Configuration\<close>; \<open>http_strategy_attr\<close> is \<^verbatim>\<open>self._http_strategy\<close>.\<close>

record Configuration =
  environment :: Environment
  merchant_id :: pyval
  public_key :: pyval
  private_key :: pyval
  http_strategy_attr :: http_strategy

text \<open>
  The process-wide state the module reads and writes: the six class attributes
  \<^verbatim>\<open>Configuration.environment\<close>, ... (\<open>None\<close> while the attribute has never been
  assigned, so that reading it raises \<^verbatim>\<open>AttributeError\<close>), \<^verbatim>\<open>os.environ\<close>, and
  the first two components of \<^verbatim>\<open>sys.version_info\<close>.
\<close>

record process =
  Configuration_environment :: "Environment option"
  Configuration_merchant_id :: "pyval option"
  Configuration_public_key :: "pyval option"
  Configuration_private_key :: "pyval option"
  Configuration_use_unsafe_ssl :: "bool option"
  Configuration_use_once :: "bool option"
  os_environ :: "string \<rightharpoonup> string"
  sys_version_info :: "nat \<times> nat"

subsection \<open>Static methods\<close>

definition configure ::
  "Environment \<Rightarrow> pyval \<Rightarrow> pyval \<Rightarrow> pyval \<Rightarrow> bool \<Rightarrow> process \<Rightarrow> process" where
  "configure env mid pub priv once ps =
     ps\<lparr>Configuration_environment := Some env,
        Configuration_merchant_id := Some mid,
        Configuration_public_key := Some pub,
        Configuration_private_key := Some priv,
        Configuration_use_unsafe_ssl := Some False,
        Configuration_use_once := Some once\<rparr>"

definition api_version :: string where
  "api_version = ''3''"

subsection \<open>Strategy resolution and the constructor\<close>

text \<open>
  \<^verbatim>\<open>__http_strategy_from_environment\<close>. Of \<^verbatim>\<open>self\<close> it uses \<^verbatim>\<open>self.environment\<close>
  only, which is the second argument here.
\<close>

definition http_strategy_from_environment :: "process \<Rightarrow> Environment \<Rightarrow> error + http_strategy" where
  "http_strategy_from_environment ps env =
     (case os_environ ps ''PYTHON_HTTP_STRATEGY'' of
        None \<Rightarrow> Inl (KeyError ''PYTHON_HTTP_STRATEGY'')
      | Some strategy_name \<Rightarrow>
          if strategy_name = ''httplib'' then Inr (HttplibStrategy env)
          else if strategy_name = ''pycurl'' then Inr (PycurlStrategy env)
          else if strategy_name = ''requests'' then Inr (RequestsStrategy env)
          else Inl (ValueError ''invalid http strategy''))"

text \<open>\<^verbatim>\<open>__determine_http_strategy\<close>.\<close>

definition determine_http_strategy :: "process \<Rightarrow> Environment \<Rightarrow> error + http_strategy" where
  "determine_http_strategy ps env =
     (if ''PYTHON_HTTP_STRATEGY'' \<in> dom (os_environ ps) then http_strategy_from_environment ps env
      else if fst (sys_version_info ps) = 2 \<and> snd (sys_version_info ps) = 5
        then Inr (PycurlStrategy env)
      else Inr (RequestsStrategy env))"

text \<open>\<^verbatim>\<open>__init__\<close>: an exception of the strategy resolution leaves no instance behind.\<close>

definition Configuration_init ::
  "process \<Rightarrow> Environment \<Rightarrow> pyval \<Rightarrow> pyval \<Rightarrow> pyval \<Rightarrow> error + Configuration" where
  "Configuration_init ps env mid pub priv =
     (case determine_http_strategy ps env of
        Inl e \<Rightarrow> Inl e
      | Inr s \<Rightarrow>
          Inr \<lparr>environment = env, merchant_id = mid, public_key = pub, private_key = priv,
               http_strategy_attr = s\<rparr>)"

text \<open>
  \<^verbatim>\<open>instantiate\<close>. The four class attributes are read in argument order, then the
  constructor runs, then \<^verbatim>\<open>Configuration.use_once\<close> is read. An exception at any of
  these points leaves the process-wide state as it was.
\<close>

definition instantiate :: "process \<Rightarrow> (error + Configuration) \<times> process" where
  "instantiate ps =
     (case Configuration_environment ps of
        None \<Rightarrow> (Inl (AttributeError ''environment''), ps)
      | Some env \<Rightarrow>
     (case Configuration_merchant_id ps of
        None \<Rightarrow> (Inl (AttributeError ''merchant_id''), ps)
      | Some mid \<Rightarrow>
     (case Configuration_public_key ps of
        None \<Rightarrow> (Inl (AttributeError ''public_key''), ps)
      | Some pub \<Rightarrow>
     (case Configuration_private_key ps of
        None \<Rightarrow> (Inl (AttributeError ''private_key''), ps)
      | Some priv \<Rightarrow>
     (case Configuration_init ps env mid pub priv of
        Inl e \<Rightarrow> (Inl e, ps)
      | Inr config \<Rightarrow>
     (case Configuration_use_once ps of
        None \<Rightarrow> (Inl (AttributeError ''use_once''), ps)
      | Some once \<Rightarrow>
          if once
          then (Inr config,
                ps\<lparr>Configuration_merchant_id := Some PyNone,
                   Configuration_public_key := Some PyNone,
                   Configuration_private_key := Some PyNone\<rparr>)
          else (Inr config, ps)))))))"

subsection \<open>Instance methods\<close>

definition base_merchant_path :: "Configuration \<Rightarrow> error + string" where
  "base_merchant_path self =
     (case merchant_id self of
        PyStr m \<Rightarrow> Inr (''/merchants/'' @ m)
      | PyNone \<Rightarrow> Inl TypeError)"

definition base_merchant_url :: "Configuration \<Rightarrow> error + string" where
  "base_merchant_url self =
     (let prefix = protocol (environment self) @ server_and_port (environment self)
      in case base_merchant_path self of
           Inl e \<Rightarrow> Inl e
         | Inr path \<Rightarrow> Inr (prefix @ path))"

definition http_strategy :: "process \<Rightarrow> Configuration \<Rightarrow> error + http_strategy" where
  "http_strategy ps self =
     (case Configuration_use_unsafe_ssl ps of
        None \<Rightarrow> Inl (AttributeError ''use_unsafe_ssl'')
      | Some unsafe \<Rightarrow>
          if unsafe then Inr (HttplibStrategy (environment self))
          else Inr (http_strategy_attr self))"

text \<open>\<^verbatim>\<open>_request_complete\<close>: returns \<^verbatim>\<open>None\<close> and updates the instance in place.\<close>

definition request_complete :: "process \<Rightarrow> Configuration \<Rightarrow> (error + unit) \<times> Configuration" where
  "request_complete ps self =
     (case Configuration_use_once ps of
        None \<Rightarrow> (Inl (AttributeError ''use_once''), self)
      | Some once \<Rightarrow>
          if once
          then (Inr (), self\<lparr>merchant_id := PyNone, public_key := PyNone, private_key := PyNone\<rparr>)
          else (Inr (), self))"

subsection \<open>Example inputs\<close>

text \<open>A process in which \<^verbatim>\<open>configure\<close> has never run, on Python 2.7 with no override.\<close>

definition fresh_process :: process where
  "fresh_process =
     \<lparr>Configuration_environment = None, Configuration_merchant_id = None,
      Configuration_public_key = None, Configuration_private_key = None,
      Configuration_use_unsafe_ssl = None, Configuration_use_once = None,
      os_environ = Map.empty, sys_version_info = (2, 7)\<rparr>"

definition Sandbox :: Environment where
  "Sandbox = \<lparr>protocol = ''https://'', server_and_port = ''sandbox.example.com''\<rparr>"

text \<open>The same process with the override variable set.\<close>

definition invalid_override_process :: process where
  "invalid_override_process =
     fresh_process\<lparr>os_environ := [''PYTHON_HTTP_STRATEGY'' \<mapsto> ''invalid-name'']\<rparr>"

definition pycurl_override_process :: process where
  "pycurl_override_process =
     fresh_process\<lparr>os_environ := [''PYTHON_HTTP_STRATEGY'' \<mapsto> ''pycurl'']\<rparr>"

section \<open>Auxiliary facts\<close>

lemmas example_defs = fresh_process_def Sandbox_def invalid_override_process_def
  pycurl_override_process_def

lemmas strategy_defs =
  http_strategy_from_environment_def determine_http_strategy_def Configuration_init_def

lemma determine_http_strategy_override:
  "os_environ ps ''PYTHON_HTTP_STRATEGY'' = Some n \<Longrightarrow>
   determine_http_strategy ps env =
     (if n = ''httplib'' then Inr (HttplibStrategy env)
      else if n = ''pycurl'' then Inr (PycurlStrategy env)
      else if n = ''requests'' then Inr (RequestsStrategy env)
      else Inl (ValueError ''invalid http strategy''))"
  by (simp add: determine_http_strategy_def http_strategy_from_environment_def dom_def)

lemma determine_http_strategy_no_override:
  "os_environ ps ''PYTHON_HTTP_STRATEGY'' = None \<Longrightarrow>
   determine_http_strategy ps env =
     (if sys_version_info ps = (2, 5) then Inr (PycurlStrategy env) else Inr (RequestsStrategy env))"
  by (cases "sys_version_info ps") (simp add: determine_http_strategy_def dom_def)

lemma Configuration_init_returns:
  "os_environ ps ''PYTHON_HTTP_STRATEGY'' \<in> {None, Some ''httplib'', Some ''pycurl'', Some ''requests''} \<Longrightarrow>
   \<exists>s. Configuration_init ps env mid pub priv =
     Inr \<lparr>environment = env, merchant_id = mid, public_key = pub, private_key = priv,
          http_strategy_attr = s\<rparr>"
  by (auto simp: Configuration_init_def determine_http_strategy_override
      determine_http_strategy_no_override)

lemma Configuration_init_fields:
  "Configuration_init ps env mid pub priv = Inr c \<Longrightarrow>
   environment c = env \<and> merchant_id c = mid \<and> public_key c = pub \<and> private_key c = priv \<and>
   determine_http_strategy ps env = Inr (http_strategy_attr c)"
  by (auto simp: Configuration_init_def split: sum.splits)

lemma configure_fields:
  "Configuration_environment (configure env mid pub priv once ps) = Some env"
  "Configuration_merchant_id (configure env mid pub priv once ps) = Some mid"
  "Configuration_public_key (configure env mid pub priv once ps) = Some pub"
  "Configuration_private_key (configure env mid pub priv once ps) = Some priv"
  "Configuration_use_unsafe_ssl (configure env mid pub priv once ps) = Some False"
  "Configuration_use_once (configure env mid pub priv once ps) = Some once"
  "os_environ (configure env mid pub priv once ps) = os_environ ps"
  "sys_version_info (configure env mid pub priv once ps) = sys_version_info ps"
  by (simp_all add: configure_def)

lemma instantiate_configured:
  "instantiate (configure env mid pub priv once ps) =
     (case Configuration_init ps env mid pub priv of
        Inl e \<Rightarrow> (Inl e, configure env mid pub priv once ps)
      | Inr c \<Rightarrow>
          (Inr c,
           if once
           then (configure env mid pub priv once ps)
                  \<lparr>Configuration_merchant_id := Some PyNone,
                   Configuration_public_key := Some PyNone,
                   Configuration_private_key := Some PyNone\<rparr>
           else configure env mid pub priv once ps))"
  by (simp add: instantiate_def configure_def strategy_defs split: sum.splits)


section \<open>The claims\<close>

subsection \<open>One-shot credentials\<close>

text \<open>
  Claim C1, as stated, at a concrete input: \<^verbatim>\<open>configure(..., use_once=True)\<close> followed by
  one \<^verbatim>\<open>instantiate()\<close> while \<^verbatim>\<open>PYTHON_HTTP_STRATEGY\<close> holds an unrecognised name. The
  constructor raises \<^verbatim>\<open>ValueError\<close> before the reset is reached, and the three
  process-wide credentials are still the configured ones.
\<close>

theorem instantiate_use_once_raise_keeps_credentials:
  "fst (instantiate (configure Sandbox (PyStr ''m1'') (PyStr ''pub1'') (PyStr ''priv1'') True
          invalid_override_process)) = Inl (ValueError ''invalid http strategy'') \<and>
   Configuration_merchant_id
     (snd (instantiate (configure Sandbox (PyStr ''m1'') (PyStr ''pub1'') (PyStr ''priv1'') True
          invalid_override_process))) = Some (PyStr ''m1'') \<and>
   Configuration_public_key
     (snd (instantiate (configure Sandbox (PyStr ''m1'') (PyStr ''pub1'') (PyStr ''priv1'') True
          invalid_override_process))) = Some (PyStr ''pub1'') \<and>
   Configuration_private_key
     (snd (instantiate (configure Sandbox (PyStr ''m1'') (PyStr ''pub1'') (PyStr ''priv1'') True
          invalid_override_process))) = Some (PyStr ''priv1'')"
  by (simp add: instantiate_configured Configuration_init_def determine_http_strategy_override
      configure_fields example_defs)

text \<open>
  Claim C1, amended: when \<^verbatim>\<open>configure\<close> was called with \<^verbatim>\<open>use_once=True\<close> and the
  following \<^verbatim>\<open>instantiate()\<close> returns a snapshot, the snapshot holds the configured
  credentials, the process-wide \<^verbatim>\<open>merchant_id\<close>, \<^verbatim>\<open>public_key\<close> and
  \<^verbatim>\<open>private_key\<close> are \<^verbatim>\<open>None\<close> afterwards, and a second \<^verbatim>\<open>instantiate()\<close> with no
  \<^verbatim>\<open>configure\<close> in between (whatever \<^verbatim>\<open>os.environ\<close> is by then) either raises or
  returns a snapshot whose three credentials are \<^verbatim>\<open>None\<close>. When \<^verbatim>\<open>use_once\<close> is
  \<^verbatim>\<open>False\<close>, \<^verbatim>\<open>instantiate()\<close> leaves the whole process-wide state as it was.
\<close>

theorem instantiate_use_once_consumes_credentials:
  "(fst (instantiate (configure env mid pub priv True ps)) = Inr snap \<longrightarrow>
      merchant_id snap = mid \<and> public_key snap = pub \<and> private_key snap = priv \<and>
      Configuration_merchant_id (snd (instantiate (configure env mid pub priv True ps))) = Some PyNone \<and>
      Configuration_public_key (snd (instantiate (configure env mid pub priv True ps))) = Some PyNone \<and>
      Configuration_private_key (snd (instantiate (configure env mid pub priv True ps))) = Some PyNone \<and>
      (\<forall>e snap2.
         fst (instantiate ((snd (instantiate (configure env mid pub priv True ps)))\<lparr>os_environ := e\<rparr>))
           = Inr snap2 \<longrightarrow>
         merchant_id snap2 = PyNone \<and> public_key snap2 = PyNone \<and> private_key snap2 = PyNone)) \<and>
   (Configuration_use_once qs = Some False \<longrightarrow> snd (instantiate qs) = qs)"
proof (intro conjI impI)
  assume ret: "fst (instantiate (configure env mid pub priv True ps)) = Inr snap"
  then have init: "Configuration_init ps env mid pub priv = Inr snap"
    by (simp add: instantiate_configured split: sum.splits)
  let ?ps' = "snd (instantiate (configure env mid pub priv True ps))"
  have ps': "?ps' = (configure env mid pub priv True ps)
               \<lparr>Configuration_merchant_id := Some PyNone,
                Configuration_public_key := Some PyNone,
                Configuration_private_key := Some PyNone\<rparr>"
    using init by (simp add: instantiate_configured)
  from init show "merchant_id snap = mid" "public_key snap = pub" "private_key snap = priv"
    by (simp_all add: Configuration_init_fields)
  from ps' show "Configuration_merchant_id ?ps' = Some PyNone"
    "Configuration_public_key ?ps' = Some PyNone"
    "Configuration_private_key ?ps' = Some PyNone"
    by simp_all
  show "\<forall>e snap2. fst (instantiate (?ps'\<lparr>os_environ := e\<rparr>)) = Inr snap2 \<longrightarrow>
          merchant_id snap2 = PyNone \<and> public_key snap2 = PyNone \<and> private_key snap2 = PyNone"
    unfolding ps'
    by (auto simp: instantiate_def configure_def Configuration_init_def split: sum.splits)
next
  assume "Configuration_use_once qs = Some False"
  then show "snd (instantiate qs) = qs"
    by (simp add: instantiate_def split: option.splits sum.splits)
qed

text \<open>
  The hypotheses of the amended C1 hold on Python 2.7 with no override: the first
  \<^verbatim>\<open>instantiate()\<close> returns a snapshot.
\<close>

theorem instantiate_use_once_consumes_credentials_witness:
  "fst (instantiate (configure Sandbox (PyStr ''m1'') (PyStr ''pub1'') (PyStr ''priv1'') True
          fresh_process)) =
     Inr \<lparr>environment = Sandbox, merchant_id = PyStr ''m1'', public_key = PyStr ''pub1'',
          private_key = PyStr ''priv1'', http_strategy_attr = RequestsStrategy Sandbox\<rparr> \<and>
   Configuration_merchant_id
     (snd (instantiate (configure Sandbox (PyStr ''m1'') (PyStr ''pub1'') (PyStr ''priv1'') True
          fresh_process))) = Some PyNone \<and>
   Configuration_use_once (configure Sandbox (PyStr ''m1'') (PyStr ''pub1'') (PyStr ''priv1'') False
          fresh_process) = Some False \<and>
   snd (instantiate (configure Sandbox (PyStr ''m1'') (PyStr ''pub1'') (PyStr ''priv1'') False
          fresh_process)) =
     configure Sandbox (PyStr ''m1'') (PyStr ''pub1'') (PyStr ''priv1'') False fresh_process"
proof -
  have ret: "fst (instantiate (configure Sandbox (PyStr ''m1'') (PyStr ''pub1'') (PyStr ''priv1'') True
          fresh_process)) =
     Inr \<lparr>environment = Sandbox, merchant_id = PyStr ''m1'', public_key = PyStr ''pub1'',
          private_key = PyStr ''priv1'', http_strategy_attr = RequestsStrategy Sandbox\<rparr>"
    by (simp add: instantiate_configured Configuration_init_def determine_http_strategy_no_override
        fresh_process_def)
  have once: "Configuration_use_once (configure Sandbox (PyStr ''m1'') (PyStr ''pub1'')
      (PyStr ''priv1'') False fresh_process) = Some False"
    by (simp add: configure_fields)
  show ?thesis
    using ret once
      instantiate_use_once_consumes_credentials [of Sandbox "PyStr ''m1''" "PyStr ''pub1''"
        "PyStr ''priv1''" fresh_process
        "\<lparr>environment = Sandbox, merchant_id = PyStr ''m1'', public_key = PyStr ''pub1'',
          private_key = PyStr ''priv1'', http_strategy_attr = RequestsStrategy Sandbox\<rparr>"
        "configure Sandbox (PyStr ''m1'') (PyStr ''pub1'') (PyStr ''priv1'') False fresh_process"]
    by simp
qed

subsection \<open>Choice of the transport strategy\<close>

text \<open>
  Claim C2: for every snapshot, whatever strategy it cached at construction (and so whatever
  \<^verbatim>\<open>PYTHON_HTTP_STRATEGY\<close> named then), while the process-wide \<^verbatim>\<open>use_unsafe_ssl\<close> is true
  \<^verbatim>\<open>http_strategy()\<close> returns a new \<^verbatim>\<open>HttplibStrategy\<close>, the transport that does not verify
  the SSL connection, built on the snapshot's environment.
\<close>

theorem http_strategy_unsafe_ssl:
  "Configuration_use_unsafe_ssl ps = Some True \<Longrightarrow>
   http_strategy ps self = Inr (HttplibStrategy (environment self))"
  by (simp add: http_strategy_def)

text \<open>
  The hypothesis of C2 on a snapshot built while the override named \<^verbatim>\<open>pycurl\<close>: with
  \<^verbatim>\<open>Configuration.use_unsafe_ssl = True\<close> the answer is the httplib transport all the same.
\<close>

theorem http_strategy_unsafe_ssl_witness:
  "Configuration_init pycurl_override_process Sandbox (PyStr ''m1'') (PyStr ''pub1'') (PyStr ''priv1'') =
     Inr \<lparr>environment = Sandbox, merchant_id = PyStr ''m1'', public_key = PyStr ''pub1'',
          private_key = PyStr ''priv1'', http_strategy_attr = PycurlStrategy Sandbox\<rparr> \<and>
   Configuration_use_unsafe_ssl (pycurl_override_process\<lparr>Configuration_use_unsafe_ssl := Some True\<rparr>)
     = Some True \<and>
   http_strategy (pycurl_override_process\<lparr>Configuration_use_unsafe_ssl := Some True\<rparr>)
     \<lparr>environment = Sandbox, merchant_id = PyStr ''m1'', public_key = PyStr ''pub1'',
      private_key = PyStr ''priv1'', http_strategy_attr = PycurlStrategy Sandbox\<rparr>
     = Inr (HttplibStrategy Sandbox)"
proof -
  have flag: "Configuration_use_unsafe_ssl
      (pycurl_override_process\<lparr>Configuration_use_unsafe_ssl := Some True\<rparr>) = Some True"
    by simp
  have built: "Configuration_init pycurl_override_process Sandbox (PyStr ''m1'') (PyStr ''pub1'')
      (PyStr ''priv1'') =
     Inr \<lparr>environment = Sandbox, merchant_id = PyStr ''m1'', public_key = PyStr ''pub1'',
          private_key = PyStr ''priv1'', http_strategy_attr = PycurlStrategy Sandbox\<rparr>"
    by (simp add: Configuration_init_def determine_http_strategy_override
        pycurl_override_process_def fresh_process_def)
  show ?thesis
    using built flag
      http_strategy_unsafe_ssl [OF flag,
        of "\<lparr>environment = Sandbox, merchant_id = PyStr ''m1'', public_key = PyStr ''pub1'',
          private_key = PyStr ''priv1'', http_strategy_attr = PycurlStrategy Sandbox\<rparr>"]
    by simp
qed

text \<open>
  Claim C3: the strategy is resolved by the constructor, in the process state \<^verbatim>\<open>ps\<close> of that
  moment: if \<^verbatim>\<open>PYTHON_HTTP_STRATEGY\<close> is set, its value alone decides; otherwise Python 2.5
  gets \<^verbatim>\<open>PycurlStrategy\<close> and every other version \<^verbatim>\<open>RequestsStrategy\<close>. While the process-wide
  \<^verbatim>\<open>use_unsafe_ssl\<close> is false, \<^verbatim>\<open>http_strategy()\<close> in any later process state \<^verbatim>\<open>ps'\<close> (any
  \<^verbatim>\<open>os.environ\<close>, any version) returns the strategy stored in the snapshot.
\<close>

theorem http_strategy_resolved_once:
  assumes "Configuration_init ps env mid pub priv = Inr self"
    and "Configuration_use_unsafe_ssl ps' = Some False"
  shows "http_strategy ps' self = Inr (http_strategy_attr self) \<and>
    (case os_environ ps ''PYTHON_HTTP_STRATEGY'' of
       Some n \<Rightarrow>
         n = ''httplib'' \<and> http_strategy_attr self = HttplibStrategy env \<or>
         n = ''pycurl'' \<and> http_strategy_attr self = PycurlStrategy env \<or>
         n = ''requests'' \<and> http_strategy_attr self = RequestsStrategy env
     | None \<Rightarrow>
         http_strategy_attr self =
           (if sys_version_info ps = (2, 5) then PycurlStrategy env else RequestsStrategy env))"
proof
  from assms(2) show "http_strategy ps' self = Inr (http_strategy_attr self)"
    by (simp add: http_strategy_def)
next
  from assms(1) have det: "determine_http_strategy ps env = Inr (http_strategy_attr self)"
    by (simp add: Configuration_init_fields)
  show "case os_environ ps ''PYTHON_HTTP_STRATEGY'' of
       Some n \<Rightarrow>
         n = ''httplib'' \<and> http_strategy_attr self = HttplibStrategy env \<or>
         n = ''pycurl'' \<and> http_strategy_attr self = PycurlStrategy env \<or>
         n = ''requests'' \<and> http_strategy_attr self = RequestsStrategy env
     | None \<Rightarrow>
         http_strategy_attr self =
           (if sys_version_info ps = (2, 5) then PycurlStrategy env else RequestsStrategy env)"
  proof (cases "os_environ ps ''PYTHON_HTTP_STRATEGY''")
    case None
    with det show ?thesis
      by (simp add: determine_http_strategy_no_override split: if_splits)
  next
    case (Some n)
    with det show ?thesis
      by (simp add: determine_http_strategy_override split: if_splits)
  qed
qed

text \<open>
  The hypotheses of C3 on a snapshot built under the override \<^verbatim>\<open>pycurl\<close> and asked for its
  strategy in a process without any override: the answer is still the pycurl transport.
\<close>

theorem http_strategy_resolved_once_witness:
  "Configuration_init pycurl_override_process Sandbox (PyStr ''m1'') (PyStr ''pub1'') (PyStr ''priv1'') =
     Inr \<lparr>environment = Sandbox, merchant_id = PyStr ''m1'', public_key = PyStr ''pub1'',
          private_key = PyStr ''priv1'', http_strategy_attr = PycurlStrategy Sandbox\<rparr> \<and>
   Configuration_use_unsafe_ssl
     (configure Sandbox (PyStr ''m1'') (PyStr ''pub1'') (PyStr ''priv1'') False fresh_process)
     = Some False \<and>
   http_strategy
     (configure Sandbox (PyStr ''m1'') (PyStr ''pub1'') (PyStr ''priv1'') False fresh_process)
     \<lparr>environment = Sandbox, merchant_id = PyStr ''m1'', public_key = PyStr ''pub1'',
      private_key = PyStr ''priv1'', http_strategy_attr = PycurlStrategy Sandbox\<rparr>
     = Inr (PycurlStrategy Sandbox)"
proof -
  have built: "Configuration_init pycurl_override_process Sandbox (PyStr ''m1'') (PyStr ''pub1'')
      (PyStr ''priv1'') =
     Inr \<lparr>environment = Sandbox, merchant_id = PyStr ''m1'', public_key = PyStr ''pub1'',
          private_key = PyStr ''priv1'', http_strategy_attr = PycurlStrategy Sandbox\<rparr>"
    by (simp add: Configuration_init_def determine_http_strategy_override
        pycurl_override_process_def fresh_process_def)
  have flag: "Configuration_use_unsafe_ssl
     (configure Sandbox (PyStr ''m1'') (PyStr ''pub1'') (PyStr ''priv1'') False fresh_process)
     = Some False"
    by (simp add: configure_fields)
  show ?thesis
    using built flag http_strategy_resolved_once [OF built flag]
    by simp
qed

text \<open>
  Claim C4: when \<^verbatim>\<open>PYTHON_HTTP_STRATEGY\<close> is set, the values \<^verbatim>\<open>httplib\<close>, \<^verbatim>\<open>pycurl\<close> and
  \<^verbatim>\<open>requests\<close> make the constructor store the strategy class of that name, and any other
  value makes it raise \<^verbatim>\<open>ValueError("invalid http strategy")\<close>, the module's
  invalid-configuration error. The constructor raises if and only if the variable is set
  to an unrecognised value.
\<close>

theorem strategy_override_resolution:
  "(os_environ ps ''PYTHON_HTTP_STRATEGY'' = Some ''httplib'' \<longrightarrow>
      Configuration_init ps env mid pub priv =
        Inr \<lparr>environment = env, merchant_id = mid, public_key = pub, private_key = priv,
             http_strategy_attr = HttplibStrategy env\<rparr>) \<and>
   (os_environ ps ''PYTHON_HTTP_STRATEGY'' = Some ''pycurl'' \<longrightarrow>
      Configuration_init ps env mid pub priv =
        Inr \<lparr>environment = env, merchant_id = mid, public_key = pub, private_key = priv,
             http_strategy_attr = PycurlStrategy env\<rparr>) \<and>
   (os_environ ps ''PYTHON_HTTP_STRATEGY'' = Some ''requests'' \<longrightarrow>
      Configuration_init ps env mid pub priv =
        Inr \<lparr>environment = env, merchant_id = mid, public_key = pub, private_key = priv,
             http_strategy_attr = RequestsStrategy env\<rparr>) \<and>
   (os_environ ps ''PYTHON_HTTP_STRATEGY'' = Some n \<and> n \<notin> {''httplib'', ''pycurl'', ''requests''} \<longrightarrow>
      Configuration_init ps env mid pub priv = Inl (ValueError ''invalid http strategy'')) \<and>
   ((\<exists>e. Configuration_init ps env mid pub priv = Inl e) \<longleftrightarrow>
    (\<exists>name. os_environ ps ''PYTHON_HTTP_STRATEGY'' = Some name \<and>
       name \<notin> {''httplib'', ''pycurl'', ''requests''}))"
proof (intro conjI impI)
  show "(\<exists>e. Configuration_init ps env mid pub priv = Inl e) \<longleftrightarrow>
    (\<exists>name. os_environ ps ''PYTHON_HTTP_STRATEGY'' = Some name \<and>
       name \<notin> {''httplib'', ''pycurl'', ''requests''})"
  proof (cases "os_environ ps ''PYTHON_HTTP_STRATEGY''")
    case None
    then show ?thesis
      by (simp add: Configuration_init_def determine_http_strategy_no_override)
  next
    case (Some name)
    then show ?thesis
      by (simp add: Configuration_init_def determine_http_strategy_override)
  qed
qed (simp_all add: Configuration_init_def determine_http_strategy_override)

text \<open>
  The four hypotheses of C4, each at a process whose override satisfies it.
\<close>

theorem strategy_override_resolution_witness:
  "map_sum id http_strategy_attr
     (Configuration_init (fresh_process\<lparr>os_environ := [''PYTHON_HTTP_STRATEGY'' \<mapsto> ''httplib'']\<rparr>)
        Sandbox (PyStr ''m1'') (PyStr ''pub1'') (PyStr ''priv1'')) = Inr (HttplibStrategy Sandbox) \<and>
   map_sum id http_strategy_attr
     (Configuration_init pycurl_override_process
        Sandbox (PyStr ''m1'') (PyStr ''pub1'') (PyStr ''priv1'')) = Inr (PycurlStrategy Sandbox) \<and>
   map_sum id http_strategy_attr
     (Configuration_init (fresh_process\<lparr>os_environ := [''PYTHON_HTTP_STRATEGY'' \<mapsto> ''requests'']\<rparr>)
        Sandbox (PyStr ''m1'') (PyStr ''pub1'') (PyStr ''priv1'')) = Inr (RequestsStrategy Sandbox) \<and>
   Configuration_init invalid_override_process Sandbox (PyStr ''m1'') (PyStr ''pub1'') (PyStr ''priv1'')
     = Inl (ValueError ''invalid http strategy'')"
  using
    strategy_override_resolution
      [where ps = "fresh_process\<lparr>os_environ := [''PYTHON_HTTP_STRATEGY'' \<mapsto> ''httplib'']\<rparr>"
       and n = "''invalid-name''" and env = Sandbox and mid = "PyStr ''m1''"
       and pub = "PyStr ''pub1''" and priv = "PyStr ''priv1''"]
    strategy_override_resolution
      [where ps = pycurl_override_process
       and n = "''invalid-name''" and env = Sandbox and mid = "PyStr ''m1''"
       and pub = "PyStr ''pub1''" and priv = "PyStr ''priv1''"]
    strategy_override_resolution
      [where ps = "fresh_process\<lparr>os_environ := [''PYTHON_HTTP_STRATEGY'' \<mapsto> ''requests'']\<rparr>"
       and n = "''invalid-name''" and env = Sandbox and mid = "PyStr ''m1''"
       and pub = "PyStr ''pub1''" and priv = "PyStr ''priv1''"]
    strategy_override_resolution
      [where ps = invalid_override_process
       and n = "''invalid-name''" and env = Sandbox and mid = "PyStr ''m1''"
       and pub = "PyStr ''pub1''" and priv = "PyStr ''priv1''"]
  by (simp add: pycurl_override_process_def invalid_override_process_def)

subsection \<open>Configure, then instantiate\<close>

text \<open>
  Claim C5, as stated, at a concrete input: with \<^verbatim>\<open>PYTHON_HTTP_STRATEGY=invalid-name\<close> in the
  environment, \<^verbatim>\<open>configure(Sandbox, "m1", "pub1", "priv1")\<close> followed by \<^verbatim>\<open>instantiate()\<close> yields no
  snapshot but \<^verbatim>\<open>ValueError\<close>.
\<close>

theorem configure_instantiate_invalid_override_raises:
  "fst (instantiate (configure Sandbox (PyStr ''m1'') (PyStr ''pub1'') (PyStr ''priv1'') False
          invalid_override_process)) = Inl (ValueError ''invalid http strategy'')"
  by (simp add: instantiate_configured Configuration_init_def determine_http_strategy_override
      invalid_override_process_def)

text \<open>
  Claim C5, amended: for every tuple (environment, merchant id, public key, private key)
  and either value of \<^verbatim>\<open>use_once\<close>, when \<^verbatim>\<open>PYTHON_HTTP_STRATEGY\<close> is unset or is one of
  \<^verbatim>\<open>httplib\<close>, \<^verbatim>\<open>pycurl\<close>, \<^verbatim>\<open>requests\<close>, \<^verbatim>\<open>configure\<close> followed by \<^verbatim>\<open>instantiate()\<close> returns a
  snapshot whose four fields equal the configured inputs.
\<close>

theorem configure_instantiate_roundtrip:
  assumes "os_environ ps ''PYTHON_HTTP_STRATEGY'' \<in>
             {None, Some ''httplib'', Some ''pycurl'', Some ''requests''}"
  shows "\<exists>snap. fst (instantiate (configure env mid pub priv once ps)) = Inr snap \<and>
           environment snap = env \<and> merchant_id snap = mid \<and>
           public_key snap = pub \<and> private_key snap = priv"
proof -
  from Configuration_init_returns [OF assms] obtain s where
    "Configuration_init ps env mid pub priv =
       Inr \<lparr>environment = env, merchant_id = mid, public_key = pub, private_key = priv,
            http_strategy_attr = s\<rparr>"
    by blast
  then show ?thesis
    by (simp add: instantiate_configured)
qed

text \<open>
  The hypothesis of the amended C5 holds in a process without the override.
\<close>

theorem configure_instantiate_roundtrip_witness:
  "os_environ fresh_process ''PYTHON_HTTP_STRATEGY'' \<in>
     {None, Some ''httplib'', Some ''pycurl'', Some ''requests''} \<and>
   (\<exists>snap. fst (instantiate (configure Sandbox (PyStr ''m1'') (PyStr ''pub1'') (PyStr ''priv1'') True
                 fresh_process)) = Inr snap \<and>
           environment snap = Sandbox \<and> merchant_id snap = PyStr ''m1'' \<and>
           public_key snap = PyStr ''pub1'' \<and> private_key snap = PyStr ''priv1'')"
proof -
  have h: "os_environ fresh_process ''PYTHON_HTTP_STRATEGY'' \<in>
     {None, Some ''httplib'', Some ''pycurl'', Some ''requests''}"
    by (simp add: fresh_process_def)
  from h configure_instantiate_roundtrip [OF h] show ?thesis
    by blast
qed

subsection \<open>Merchant path and URL\<close>

text \<open>
  Claim C6: for every snapshot, \<^verbatim>\<open>base_merchant_url()\<close> is the environment's protocol, then
  its server and port, then the result of \<^verbatim>\<open>base_merchant_path()\<close>; where the latter raises
  (the merchant id is \<^verbatim>\<open>None\<close>), so does the former, with the same exception.
\<close>

theorem base_merchant_url_concat:
  "base_merchant_url self =
     (case base_merchant_path self of
        Inl e \<Rightarrow> Inl e
      | Inr path \<Rightarrow>
          Inr (protocol (environment self) @ server_and_port (environment self) @ path))"
  by (simp add: base_merchant_url_def split: sum.splits)

text \<open>
  The scenario of the specification: merchant \<^verbatim>\<open>m1\<close> on the sandbox environment.
\<close>

lemma base_merchant_url_example:
  "base_merchant_url
     \<lparr>environment = Sandbox, merchant_id = PyStr ''m1'', public_key = PyStr ''pub1'',
      private_key = PyStr ''priv1'', http_strategy_attr = RequestsStrategy Sandbox\<rparr>
   = Inr ''https://sandbox.example.com/merchants/m1''"
  by (simp add: base_merchant_url_def base_merchant_path_def Sandbox_def)

text \<open>
  Claim C7: for every snapshot whose merchant id is a string, \<^verbatim>\<open>base_merchant_path()\<close> is
  \<^verbatim>\<open>"/merchants/"\<close> followed by that merchant id.
\<close>

theorem base_merchant_path_configured:
  "merchant_id self = PyStr m \<Longrightarrow> base_merchant_path self = Inr (''/merchants/'' @ m)"
  by (simp add: base_merchant_path_def)

text \<open>
  The hypothesis of C7 on the snapshot of merchant \<^verbatim>\<open>m1\<close>.
\<close>

theorem base_merchant_path_configured_witness:
  "merchant_id \<lparr>environment = Sandbox, merchant_id = PyStr ''m1'', public_key = PyStr ''pub1'',
      private_key = PyStr ''priv1'', http_strategy_attr = RequestsStrategy Sandbox\<rparr> = PyStr ''m1'' \<and>
   base_merchant_path \<lparr>environment = Sandbox, merchant_id = PyStr ''m1'', public_key = PyStr ''pub1'',
      private_key = PyStr ''priv1'', http_strategy_attr = RequestsStrategy Sandbox\<rparr>
     = Inr ''/merchants/m1''"
  using base_merchant_path_configured
    [of "\<lparr>environment = Sandbox, merchant_id = PyStr ''m1'', public_key = PyStr ''pub1'',
      private_key = PyStr ''priv1'', http_strategy_attr = RequestsStrategy Sandbox\<rparr>" "''m1''"]
  by simp

subsection \<open>After a request\<close>

text \<open>
  Claim C8: \<^verbatim>\<open>_request_complete()\<close> sets the snapshot's own \<^verbatim>\<open>merchant_id\<close>, \<^verbatim>\<open>public_key\<close> and
  \<^verbatim>\<open>private_key\<close> to \<^verbatim>\<open>None\<close> (and nothing else) when the process-wide \<^verbatim>\<open>use_once\<close> is true at
  that moment; when it is not, the snapshot is left as it was.
\<close>

theorem request_complete_use_once:
  "(Configuration_use_once ps = Some True \<longrightarrow>
      request_complete ps self =
        (Inr (), self\<lparr>merchant_id := PyNone, public_key := PyNone, private_key := PyNone\<rparr>)) \<and>
   (Configuration_use_once ps \<noteq> Some True \<longrightarrow> snd (request_complete ps self) = self)"
  by (simp add: request_complete_def split: option.splits)

text \<open>
  Both hypotheses of C8, after \<^verbatim>\<open>configure\<close> with \<^verbatim>\<open>use_once=True\<close> and with \<^verbatim>\<open>use_once=False\<close>.
\<close>

theorem request_complete_use_once_witness:
  "Configuration_use_once
     (configure Sandbox (PyStr ''m1'') (PyStr ''pub1'') (PyStr ''priv1'') True fresh_process)
     = Some True \<and>
   request_complete
     (configure Sandbox (PyStr ''m1'') (PyStr ''pub1'') (PyStr ''priv1'') True fresh_process)
     \<lparr>environment = Sandbox, merchant_id = PyStr ''m1'', public_key = PyStr ''pub1'',
      private_key = PyStr ''priv1'', http_strategy_attr = RequestsStrategy Sandbox\<rparr>
     = (Inr (), \<lparr>environment = Sandbox, merchant_id = PyNone, public_key = PyNone,
                private_key = PyNone, http_strategy_attr = RequestsStrategy Sandbox\<rparr>) \<and>
   Configuration_use_once
     (configure Sandbox (PyStr ''m1'') (PyStr ''pub1'') (PyStr ''priv1'') False fresh_process)
     \<noteq> Some True \<and>
   snd (request_complete
     (configure Sandbox (PyStr ''m1'') (PyStr ''pub1'') (PyStr ''priv1'') False fresh_process)
     \<lparr>environment = Sandbox, merchant_id = PyStr ''m1'', public_key = PyStr ''pub1'',
      private_key = PyStr ''priv1'', http_strategy_attr = RequestsStrategy Sandbox\<rparr>)
     = \<lparr>environment = Sandbox, merchant_id = PyStr ''m1'', public_key = PyStr ''pub1'',
      private_key = PyStr ''priv1'', http_strategy_attr = RequestsStrategy Sandbox\<rparr>"
  using
    request_complete_use_once
      [of "configure Sandbox (PyStr ''m1'') (PyStr ''pub1'') (PyStr ''priv1'') True fresh_process"
        "\<lparr>environment = Sandbox, merchant_id = PyStr ''m1'', public_key = PyStr ''pub1'',
          private_key = PyStr ''priv1'', http_strategy_attr = RequestsStrategy Sandbox\<rparr>"]
    request_complete_use_once
      [of "configure Sandbox (PyStr ''m1'') (PyStr ''pub1'') (PyStr ''priv1'') False fresh_process"
        "\<lparr>environment = Sandbox, merchant_id = PyStr ''m1'', public_key = PyStr ''pub1'',
          private_key = PyStr ''priv1'', http_strategy_attr = RequestsStrategy Sandbox\<rparr>"]
  by (simp add: configure_fields)

subsection \<open>Effects on the process-wide state\<close>

text \<open>
  Claim C9: every \<^verbatim>\<open>configure\<close> leaves the process-wide \<^verbatim>\<open>use_unsafe_ssl\<close> false, whatever it
  was. A caller who had set \<^verbatim>\<open>Configuration.use_unsafe_ssl = True\<close>, and for whom
  \<^verbatim>\<open>http_strategy()\<close> therefore answered with the httplib transport, gets the snapshot's
  cached strategy again after the next \<^verbatim>\<open>configure\<close>.
\<close>

theorem configure_resets_use_unsafe_ssl:
  "Configuration_use_unsafe_ssl (configure env mid pub priv once ps) = Some False \<and>
   http_strategy (ps\<lparr>Configuration_use_unsafe_ssl := Some True\<rparr>) self =
     Inr (HttplibStrategy (environment self)) \<and>
   http_strategy
     (configure env mid pub priv once (ps\<lparr>Configuration_use_unsafe_ssl := Some True\<rparr>)) self =
     Inr (http_strategy_attr self)"
  by (simp add: http_strategy_def configure_fields)

text \<open>
  Claim C10: \<^verbatim>\<open>instantiate()\<close>, whether it returns or raises, never changes the process-wide
  \<^verbatim>\<open>environment\<close>, \<^verbatim>\<open>use_once\<close> or \<^verbatim>\<open>use_unsafe_ssl\<close> (nor \<^verbatim>\<open>os.environ\<close> or the version). With
  \<^verbatim>\<open>use_once\<close> false the whole process-wide state is unchanged; in every case the state
  afterwards is either the state before or differs from it in the three credentials only,
  which are then \<^verbatim>\<open>None\<close>.
\<close>

theorem instantiate_frame:
  "Configuration_environment (snd (instantiate ps)) = Configuration_environment ps \<and>
   Configuration_use_once (snd (instantiate ps)) = Configuration_use_once ps \<and>
   Configuration_use_unsafe_ssl (snd (instantiate ps)) = Configuration_use_unsafe_ssl ps \<and>
   os_environ (snd (instantiate ps)) = os_environ ps \<and>
   sys_version_info (snd (instantiate ps)) = sys_version_info ps \<and>
   (Configuration_use_once ps = Some False \<longrightarrow> snd (instantiate ps) = ps) \<and>
   (snd (instantiate ps) = ps \<or>
    snd (instantiate ps) =
      ps\<lparr>Configuration_merchant_id := Some PyNone,
         Configuration_public_key := Some PyNone,
         Configuration_private_key := Some PyNone\<rparr>)"
  by (simp add: instantiate_def split: option.splits sum.splits)

text \<open>
  The hypothesis of C10 after \<^verbatim>\<open>configure\<close> with \<^verbatim>\<open>use_once=False\<close>, and the frame after
  \<^verbatim>\<open>configure\<close> with \<^verbatim>\<open>use_once=True\<close>.
\<close>

theorem instantiate_frame_witness:
  "Configuration_use_once
     (configure Sandbox (PyStr ''m1'') (PyStr ''pub1'') (PyStr ''priv1'') False fresh_process)
     = Some False \<and>
   snd (instantiate
     (configure Sandbox (PyStr ''m1'') (PyStr ''pub1'') (PyStr ''priv1'') False fresh_process))
     = configure Sandbox (PyStr ''m1'') (PyStr ''pub1'') (PyStr ''priv1'') False fresh_process \<and>
   Configuration_use_once
     (configure Sandbox (PyStr ''m1'') (PyStr ''pub1'') (PyStr ''priv1'') True fresh_process)
     = Some True \<and>
   Configuration_use_unsafe_ssl (snd (instantiate
     (configure Sandbox (PyStr ''m1'') (PyStr ''pub1'') (PyStr ''priv1'') True fresh_process)))
     = Some False \<and>
   Configuration_environment (snd (instantiate
     (configure Sandbox (PyStr ''m1'') (PyStr ''pub1'') (PyStr ''priv1'') True fresh_process)))
     = Some Sandbox"
  using
    instantiate_frame
      [of "configure Sandbox (PyStr ''m1'') (PyStr ''pub1'') (PyStr ''priv1'') False fresh_process"]
    instantiate_frame
      [of "configure Sandbox (PyStr ''m1'') (PyStr ''pub1'') (PyStr ''priv1'') True fresh_process"]
  by (simp add: configure_fields)

end
